theory Spec2Isabelle
  imports Main
begin

section \<open>Errors and the session model\<close>

text \<open>
  Go errors are values. \<open>Wrap\<close> is \<open>errors.WrapWithDetails\<close> around a non-nil cause; the
  predicates of \<open>k8sErrors\<close> look through the wrapping at the cause.
\<close>

datatype error = NotFound | AlreadyExists | Failure string | RouteNotFound | Wrap string error

fun IsNotFound :: "error \<Rightarrow> bool" where
  "IsNotFound NotFound = True"
| "IsNotFound (Wrap msg e) = IsNotFound e"
| "IsNotFound e = False"


text \<open>The text of an error, \<open>err.Error ()\<close>: a wrapped error prints its message before
  its cause.\<close>

fun Error :: "error \<Rightarrow> string" where
  "Error NotFound = ''not found''"
| "Error AlreadyExists = ''already exists''"
| "Error (Failure msg) = msg"
| "Error RouteNotFound = ''route not found''"
| "Error (Wrap msg e) = msg @ '': '' @ Error e"

text \<open>A runtime panic of the Go program: the call does not return.\<close>

datatype panic = SliceBounds | NilMapWrite | NilDereference

text \<open>
  Modelled from the spec: the types of package \<open>model\<close> (\<open>Ref\<close>, \<open>ResourceStatus\<close>,
  \<open>LocatedResource\<close>, \<open>Route\<close>, \<open>SessionContext\<close>, the actions and the strategies) are declared
  outside the sources. The spec lists their fields; of a strategy the sources only test
  whether it is \<open>StrategyExisting\<close>.
\<close>

datatype Action = ActionCreated | ActionModified | ActionLocated

datatype Strategy = StrategyExisting | StrategyOther string

record ResourceStatus =
  rsKind :: string
  rsName :: string
  rsAction :: Action
  rsSuccess :: bool
  rsMessage :: string
  rsProp :: "(string \<times> string) list"

record LocatedResource =
  lrKind :: string
  lrName :: string
  lrLabels :: "string \<rightharpoonup> string"

record Ref =
  Strategy :: Strategy
  Targets :: "LocatedResource list"
  ResourceStatuses :: "ResourceStatus list"

record Route =
  rType :: string
  rName :: string
  rValue :: string

record SessionContext =
  ctxName :: string
  ctxNamespace :: string
  ctxRoute :: Route

text \<open>
  Modelled from the spec: the constructors and accessors of package \<open>model\<close> are not part
  of the sources. A resource status is \<open>{kind, name, action, success, props}\<close>; a failed one
  carries the error text.
\<close>

definition NewFailedResource :: "string \<Rightarrow> string \<Rightarrow> Action \<Rightarrow> string \<Rightarrow> ResourceStatus" where
  "NewFailedResource k n a msg =
     \<lparr>rsKind = k, rsName = n, rsAction = a, rsSuccess = False, rsMessage = msg, rsProp = []\<rparr>"

definition NewSuccessResource :: "string \<Rightarrow> string \<Rightarrow> Action \<Rightarrow> ResourceStatus" where
  "NewSuccessResource k n a =
     \<lparr>rsKind = k, rsName = n, rsAction = a, rsSuccess = True, rsMessage = [], rsProp = []\<rparr>"

text \<open>
  Modelled from the spec: \<open>Ref.AddResourceStatus\<close> is not part of the sources. The ledger
  holds one entry per kind and name: a status for a resource already on the ledger
  takes the place of the old entry (a later reconcile "updates the status"), any other
  status is appended.
\<close>

definition sameResource :: "ResourceStatus \<Rightarrow> ResourceStatus \<Rightarrow> bool" where
  "sameResource a b \<longleftrightarrow> rsKind a = rsKind b \<and> rsName a = rsName b"

definition AddResourceStatus :: "ResourceStatus \<Rightarrow> Ref \<Rightarrow> Ref" where
  "AddResourceStatus s r =
     (if list_ex (sameResource s) (ResourceStatuses r)
      then r\<lparr>ResourceStatuses := map (\<lambda>x. if sameResource s x then s else x) (ResourceStatuses r)\<rparr>
      else r\<lparr>ResourceStatuses := ResourceStatuses r @ [s]\<rparr>)"

text \<open>
  Modelled from the spec: \<open>Ref.RemoveResourceStatus\<close> is not part of the sources. The entry
  is found by kind and name (the route revertor passes a status with only these two set).
\<close>

definition RemoveResourceStatus :: "ResourceStatus \<Rightarrow> Ref \<Rightarrow> Ref" where
  "RemoveResourceStatus s r =
     r\<lparr>ResourceStatuses := filter (\<lambda>x. \<not> sameResource s x) (ResourceStatuses r)\<rparr>"

text \<open>
  Modelled from the spec: \<open>Ref.GetResources (model.Kind k)\<close> and \<open>Ref.GetTargets\<close> with the
  predicates \<open>model.Kind\<close> and \<open>model.All (model.Kind k, model.Name n)\<close> are not part of the
  sources; they select from the ledger and from the located targets.
\<close>

definition GetResources :: "string \<Rightarrow> Ref \<Rightarrow> ResourceStatus list" where
  "GetResources k r = filter (\<lambda>s. rsKind s = k) (ResourceStatuses r)"

definition GetTargets :: "string \<Rightarrow> Ref \<Rightarrow> LocatedResource list" where
  "GetTargets k r = filter (\<lambda>t. lrKind t = k) (Targets r)"


section \<open>The workload manipulator (pkg/k8s/deployment.go)\<close>

definition DeploymentKind :: string where
  "DeploymentKind = ''Deployment''"

record Deployment =
  dName :: string
  dNamespace :: string
  dSpec :: string

text \<open>
  The cluster client is an oracle for the result of each call; the calls that write to
  the cluster are recorded in the order they are made.
\<close>

datatype DeploymentCall = CreateDeployment Deployment | DeleteDeployment string string

record DeploymentClient =
  Get :: "string \<Rightarrow> string \<Rightarrow> error + Deployment"
  Create :: "Deployment \<Rightarrow> error option"
  Delete :: "string \<Rightarrow> string \<Rightarrow> error option"

definition getDeployment :: "DeploymentClient \<Rightarrow> string \<Rightarrow> string \<Rightarrow> error + Deployment" where
  "getDeployment c ns n =
     (case Get c ns n of
        Inl e \<Rightarrow> Inl (Wrap ''failed finding deployment in namespace '' e)
      | Inr d \<Rightarrow> Inr d)"

text \<open>
  \<open>DeploymentMutator\<close>: the template engine (\<open>cloneDeployment\<close>, which runs it between a
  JSON round trip) and \<open>reference.Add\<close> are parameters. The result is the returned
  error, the ref and the writes made.
\<close>

definition DeploymentMutator ::
  "(Deployment \<Rightarrow> Ref \<Rightarrow> string \<Rightarrow> error + Deployment) \<Rightarrow> (Deployment \<Rightarrow> Deployment) \<Rightarrow> string \<Rightarrow>
   DeploymentClient \<Rightarrow> SessionContext \<Rightarrow> Ref \<Rightarrow> error option \<times> Ref \<times> DeploymentCall list" where
  "DeploymentMutator cloneDeployment referenceAdd newVersion c ctx ref =
     (case GetTargets DeploymentKind ref of
        [] \<Rightarrow> (None, ref, [])
      | target # others \<Rightarrow>
          (case getDeployment c (ctxNamespace ctx) (lrName target) of
             Inl err \<Rightarrow> if IsNotFound err then (None, ref, []) else (Some err, ref, [])
           | Inr deployment \<Rightarrow>
               if Strategy ref = StrategyExisting then (None, ref, [])
               else
                 (case cloneDeployment deployment ref newVersion of
                    Inl err \<Rightarrow> (Some err, ref, [])
                  | Inr cloned \<Rightarrow>
                      (let deploymentClone = referenceAdd cloned in
                       case getDeployment c (dNamespace deploymentClone) (dName deploymentClone) of
                         Inr found \<Rightarrow> (None, ref, [])
                       | Inl missing \<Rightarrow>
                           (case Create c deploymentClone of
                              Some err \<Rightarrow>
                                (Some (Wrap ''failed to create cloned Deployment'' err),
                                 AddResourceStatus
                                   (NewFailedResource DeploymentKind (dName deploymentClone) ActionCreated (Error err))
                                   ref,
                                 [CreateDeployment deploymentClone])
                            | None \<Rightarrow>
                                (None,
                                 AddResourceStatus
                                   (NewSuccessResource DeploymentKind (dName deploymentClone) ActionCreated)
                                   ref,
                                 [CreateDeployment deploymentClone]))))))"

text \<open>
  \<open>DeploymentRevertor\<close>: the loop over the statuses selected before it starts. Both
  error branches return from the function.
\<close>

fun revertDeployments ::
  "DeploymentClient \<Rightarrow> SessionContext \<Rightarrow> ResourceStatus list \<Rightarrow> Ref \<Rightarrow> error option \<times> Ref \<times> DeploymentCall list" where
  "revertDeployments c ctx [] ref = (None, ref, [])"
| "revertDeployments c ctx (status # rest) ref =
     (case Delete c (ctxNamespace ctx) (rsName status) of
        Some err \<Rightarrow>
          if IsNotFound err then (None, ref, [DeleteDeployment (ctxNamespace ctx) (rsName status)])
          else
            (Some (Wrap ''failed to delete Deployment'' err),
             AddResourceStatus
               (NewFailedResource DeploymentKind (rsName status) (rsAction status) (Error err)) ref,
             [DeleteDeployment (ctxNamespace ctx) (rsName status)])
      | None \<Rightarrow>
          (case revertDeployments c ctx rest
                  (RemoveResourceStatus (NewSuccessResource DeploymentKind (rsName status) (rsAction status)) ref) of
             (err, ref', calls) \<Rightarrow> (err, ref', DeleteDeployment (ctxNamespace ctx) (rsName status) # calls)))"

definition DeploymentRevertor ::
  "DeploymentClient \<Rightarrow> SessionContext \<Rightarrow> Ref \<Rightarrow> error option \<times> Ref \<times> DeploymentCall list" where
  "DeploymentRevertor c ctx ref = revertDeployments c ctx (GetResources DeploymentKind ref) ref"

text \<open>Vocabulary for the revertor's loop: a status whose delete succeeded, the ledger
  after the statuses reverted so far have been taken off it, and the delete call made
  for a status.\<close>

definition deleted :: "DeploymentClient \<Rightarrow> SessionContext \<Rightarrow> ResourceStatus \<Rightarrow> bool" where
  "deleted c ctx s \<longleftrightarrow> Delete c (ctxNamespace ctx) (rsName s) = None"

definition removeReverted :: "Ref \<Rightarrow> ResourceStatus list \<Rightarrow> Ref" where
  "removeReverted ref done =
     foldl (\<lambda>r s. RemoveResourceStatus (NewSuccessResource DeploymentKind (rsName s) (rsAction s)) r) ref done"

definition deleteCall :: "SessionContext \<Rightarrow> ResourceStatus \<Rightarrow> DeploymentCall" where
  "deleteCall ctx s = DeleteDeployment (ctxNamespace ctx) (rsName s)"

subsection \<open>A session used in the examples\<close>

definition demoCtx :: SessionContext where
  "demoCtx = \<lparr>ctxName = ''demo'', ctxNamespace = ''bookinfo'',
              ctxRoute = \<lparr>rType = ''header'', rName = ''x-test'', rValue = ''smoke''\<rparr>\<rparr>"

definition ratingsClone :: ResourceStatus where
  "ratingsClone = NewSuccessResource DeploymentKind ''ratings-demo'' ActionCreated"

definition reviewsClone :: ResourceStatus where
  "reviewsClone = NewSuccessResource DeploymentKind ''reviews-demo'' ActionCreated"

definition ratingsTarget :: LocatedResource where
  "ratingsTarget = \<lparr>lrKind = DeploymentKind, lrName = ''ratings'', lrLabels = [''version'' \<mapsto> ''v1'']\<rparr>"

definition demoRef :: Ref where
  "demoRef = \<lparr>Strategy = StrategyOther ''prepared-image'', Targets = [ratingsTarget],
              ResourceStatuses = [ratingsClone, reviewsClone]\<rparr>"

definition existingRef :: Ref where
  "existingRef = \<lparr>Strategy = StrategyExisting, Targets = [ratingsTarget], ResourceStatuses = []\<rparr>"

definition ratingsDeployment :: Deployment where
  "ratingsDeployment = \<lparr>dName = ''ratings'', dNamespace = ''bookinfo'', dSpec = ''image: ratings:v1''\<rparr>"

text \<open>A cluster that holds the deployment \<open>ratings\<close>, deletes \<open>ratings-demo\<close> and answers
  every other delete with \<open>reply\<close>.\<close>

definition replyClient :: "error option \<Rightarrow> DeploymentClient" where
  "replyClient reply =
     \<lparr>Get = (\<lambda>ns n. if n = ''ratings'' then Inr ratingsDeployment else Inl NotFound),
      Create = (\<lambda>d. None),
      Delete = (\<lambda>ns n. if n = ''ratings-demo'' then None else reply)\<rparr>"

text \<open>A cluster from which everything is gone already.\<close>

definition goneClient :: DeploymentClient where
  "goneClient = \<lparr>Get = (\<lambda>ns n. Inl NotFound), Create = (\<lambda>d. None), Delete = (\<lambda>ns n. Some NotFound)\<rparr>"

definition suffixClone :: "Deployment \<Rightarrow> Ref \<Rightarrow> string \<Rightarrow> error + Deployment" where
  "suffixClone d r v = Inr (d\<lparr>dName := dName d @ ''-demo''\<rparr>)"

section \<open>Strings and host lists (package strings, gateway.go)\<close>

text \<open>\<open>strings.Split\<close> and \<open>strings.Join\<close> for a separator of one character, the only
  kind the sources pass (\<open>","\<close> and \<open>"."\<close>). Splitting the empty string gives one empty
  string.\<close>

fun Split :: "string \<Rightarrow> char \<Rightarrow> string list" where
  "Split [] sep = [[]]"
| "Split (c # cs) sep =
     (if c = sep then [] # Split cs sep
      else (case Split cs sep of [] \<Rightarrow> [[c]] | w # ws \<Rightarrow> (c # w) # ws))"

fun Join :: "string list \<Rightarrow> char \<Rightarrow> string" where
  "Join [] sep = []"
| "Join [x] sep = x"
| "Join (x # y # ys) sep = x @ sep # Join (y # ys) sep"

definition HasPrefix :: "string \<Rightarrow> string \<Rightarrow> bool" where
  "HasPrefix s p \<longleftrightarrow> take (length p) s = p"

fun existInList :: "string list \<Rightarrow> string \<Rightarrow> bool" where
  "existInList [] host = False"
| "existInList (eh # hosts) host = (if eh = host then True else existInList hosts host)"

fun removeFromList :: "string list \<Rightarrow> string \<Rightarrow> string list" where
  "removeFromList [] host = []"
| "removeFromList (eh # hosts) host = (if eh = host then hosts else eh # removeFromList hosts host)"

section \<open>The gateway manipulator (gateway.go)\<close>

text \<open>Modelled from the spec: the constant \<open>LabelIkeHosts\<close> is declared outside the
  sources; the spec gives the annotation key \<open>ike.hosts\<close>.\<close>

definition LabelIkeHosts :: string where
  "LabelIkeHosts = ''ike.hosts''"


record Server =
  Hosts :: "string list"
  Port :: string

text \<open>A Go map is a partial function; a nil map reads as the empty one, and both
  functions below put an empty map in its place before they write.\<close>

record Gateway =
  gwName :: string
  Annotations :: "string \<rightharpoonup> string"
  Servers :: "Server list"

text \<open>The hosts recorded in the annotation: nothing when the key is absent or empty.\<close>

definition recordedHosts :: "Gateway \<Rightarrow> string list" where
  "recordedHosts source =
     (case Annotations source LabelIkeHosts of
        None \<Rightarrow> []
      | Some hosts \<Rightarrow> if hosts \<noteq> [] then Split hosts CHR '','' else [])"

text \<open>The first inner loop of \<open>mutateGateway\<close>: it ranges over the server's hosts as they
  were when the loop started and threads \<open>existingHosts\<close>, \<open>hosts\<close> and \<open>addedHosts\<close>.\<close>

fun addSessionHosts ::
  "string \<Rightarrow> string list \<Rightarrow> string list \<times> string list \<times> string list \<Rightarrow>
   string list \<times> string list \<times> string list" where
  "addSessionHosts name [] state = state"
| "addSessionHosts name (host # rest) (existingHosts, hosts, addedHosts) =
     (let newHost = name @ ''.'' @ host;
          fresh = \<not> existInList existingHosts host \<and> \<not> existInList existingHosts newHost;
          existingHosts' = (if fresh then existingHosts @ [newHost] else existingHosts);
          hosts' = (if fresh then hosts @ [newHost] else hosts);
          addedHosts' = (if existInList existingHosts' newHost then addedHosts @ [newHost] else addedHosts)
      in addSessionHosts name rest (existingHosts', hosts', addedHosts'))"

text \<open>The second inner loop: a recorded host whose base host the server lists is put
  back on the server.\<close>

definition baseHost :: "string \<Rightarrow> string" where
  "baseHost existing = Join (tl (Split existing CHR ''.'')) CHR ''.''"

fun repairHosts :: "string list \<Rightarrow> string list \<Rightarrow> string list" where
  "repairHosts [] hosts = hosts"
| "repairHosts (existing # rest) hosts =
     repairHosts rest
       (if \<not> existInList hosts existing \<and> existInList hosts (baseHost existing)
        then hosts @ [existing] else hosts)"

fun mutateServers ::
  "string \<Rightarrow> Server list \<Rightarrow> string list \<times> string list \<Rightarrow> Server list \<times> string list \<times> string list" where
  "mutateServers name [] (existingHosts, addedHosts) = ([], existingHosts, addedHosts)"
| "mutateServers name (server # rest) (existingHosts, addedHosts) =
     (case addSessionHosts name (Hosts server) (existingHosts, Hosts server, addedHosts) of
        (existingHosts', hosts, addedHosts') \<Rightarrow>
          (case mutateServers name rest (existingHosts', addedHosts') of
             (servers, existingHosts'', addedHosts'') \<Rightarrow>
               (server\<lparr>Hosts := repairHosts existingHosts' hosts\<rparr> # servers, existingHosts'', addedHosts'')))"

definition mutateGateway :: "string \<Rightarrow> Gateway \<Rightarrow> Gateway \<times> string list" where
  "mutateGateway name source =
     (case mutateServers name (Servers source) (recordedHosts source, []) of
        (servers, existingHosts, addedHosts) \<Rightarrow>
          (source\<lparr>Servers := servers,
                  Annotations := (Annotations source)(LabelIkeHosts \<mapsto> Join existingHosts CHR '','')\<rparr>,
           addedHosts))"

text \<open>The inner loop of \<open>revertGateway\<close>: the host at the index is either cut out of the
  slice (the index stays) or kept (the index moves on). The result is the hosts kept
  and the hosts to be removed from the annotation.\<close>

fun removeSessionHosts :: "string \<Rightarrow> string list \<Rightarrow> string list \<Rightarrow> string list \<times> string list" where
  "removeSessionHosts name existingHosts [] = ([], [])"
| "removeSessionHosts name existingHosts (host # rest) =
     (case removeSessionHosts name existingHosts rest of
        (kept, removed) \<Rightarrow>
          if existInList existingHosts host \<and> HasPrefix host (name @ ''.'')
          then (kept, host # removed) else (host # kept, removed))"

fun revertServers :: "string \<Rightarrow> string list \<Rightarrow> Server list \<Rightarrow> Server list \<times> string list" where
  "revertServers name existingHosts [] = ([], [])"
| "revertServers name existingHosts (server # rest) =
     (case removeSessionHosts name existingHosts (Hosts server) of
        (kept, removed) \<Rightarrow>
          (case revertServers name existingHosts rest of
             (servers, toBeRemovedHosts) \<Rightarrow> (server\<lparr>Hosts := kept\<rparr> # servers, removed @ toBeRemovedHosts)))"

text \<open>The recorded hosts that are left once the removed ones are taken off the list.\<close>

definition remainingHosts :: "string \<Rightarrow> Gateway \<Rightarrow> string list" where
  "remainingHosts name source =
     foldl removeFromList (recordedHosts source)
       (snd (revertServers name (recordedHosts source) (Servers source)))"

definition revertGateway :: "string \<Rightarrow> Gateway \<Rightarrow> Gateway" where
  "revertGateway name source =
     source\<lparr>Servers := fst (revertServers name (recordedHosts source) (Servers source)),
            Annotations :=
              (if length (remainingHosts name source) = 0
               then (Annotations source)(LabelIkeHosts := None)
               else (Annotations source)(LabelIkeHosts \<mapsto> Join (remainingHosts name source) CHR '',''))\<rparr>"

text \<open>What the claims about gateways compare: the host list of each server, the host set
  of each server, and the set of hosts the annotation records.\<close>

definition serverHosts :: "Gateway \<Rightarrow> string list list" where
  "serverHosts g = map Hosts (Servers g)"



definition commaFree :: "string \<Rightarrow> bool" where
  "commaFree s \<longleftrightarrow> CHR '','' \<notin> set s"


definition allHosts :: "Gateway \<Rightarrow> string list" where
  "allHosts g = concat (map Hosts (Servers g))"

text \<open>Vocabulary for the gateway proofs: the session host of a host, and servers with a
  list of hosts appended to each.\<close>

definition sessionHost :: "string \<Rightarrow> string \<Rightarrow> string" where
  "sessionHost name host = name @ ''.'' @ host"

definition extendServers :: "Server list \<Rightarrow> string list list \<Rightarrow> Server list" where
  "extendServers servers apps = map (\<lambda>(s, app). s\<lparr>Hosts := Hosts s @ app\<rparr>) (zip servers apps)"

subsection \<open>Gateways used in the examples\<close>

definition plainGateway :: Gateway where
  "plainGateway = \<lparr>gwName = ''g1'', Annotations = Map.empty, Servers = [\<lparr>Hosts = [''a.io''], Port = ''80''\<rparr>]\<rparr>"

definition commaGateway :: Gateway where
  "commaGateway = \<lparr>gwName = ''g1'', Annotations = Map.empty, Servers = [\<lparr>Hosts = [''a,b''], Port = ''80''\<rparr>]\<rparr>"

definition emptyAnnotationGateway :: Gateway where
  "emptyAnnotationGateway =
     \<lparr>gwName = ''g1'', Annotations = [LabelIkeHosts \<mapsto> []], Servers = [\<lparr>Hosts = [''a.io''], Port = ''80''\<rparr>]\<rparr>"

section \<open>The mesh route manipulator (virtualservice.go)\<close>




record HostName =
  hnName :: string
  hnNamespace :: string

record Destination =
  Host :: string
  Subset :: string

record HTTPRouteDestination =
  Destination :: "Destination option"
  Weight :: int

datatype StringMatch = Exact string | Prefix string | Regex string

record HTTPMatchRequest =
  mName :: string
  mHeaders :: "string \<rightharpoonup> StringMatch"

text \<open>The map \<open>Add\<close> may be nil (\<open>None\<close>): a write to a nil map panics.\<close>

record HeaderOperations =
  hoSet :: "string \<rightharpoonup> string"
  Add :: "(string \<rightharpoonup> string) option"
  hoRemove :: "string list"

record Headers =
  Request :: "HeaderOperations option"
  Response :: "HeaderOperations option"

record HTTPRoute =
  Match :: "HTTPMatchRequest list"
  Route :: "HTTPRouteDestination list"
  Redirect :: "string option"
  Mirror :: "Destination option"
  Headers :: "Headers option"

record VirtualService =
  vsName :: string
  ResourceVersion :: string
  Labels :: "string \<rightharpoonup> string"
  References :: "(string \<times> string) list"
  Gateways :: "string list"
  vsHosts :: "string list"
  Http :: "HTTPRoute list"

text \<open>The condition shared by \<open>mutationRequired\<close>, \<open>findRoutes\<close> and \<open>removeOtherRoutes\<close>: the
  destination is there, its host matches, and its subset is empty or the given one.
  \<open>hostMatch\<close> is \<open>HostName.Match\<close> of the target host, which is not part of the sources
  and is a parameter throughout.\<close>

definition targets :: "(string \<Rightarrow> bool) \<Rightarrow> string \<Rightarrow> HTTPRouteDestination \<Rightarrow> bool" where
  "targets hostMatch subsetName r =
     (case Destination r of
        None \<Rightarrow> False
      | Some d \<Rightarrow> hostMatch (Host d) \<and> (Subset d = [] \<or> Subset d = subsetName))"




text \<open>\<open>findRoutes\<close> returns a pointer to a rule once for each of its destinations that
  matches; the model returns the rule's index in \<open>Spec.Http\<close> as often.\<close>

definition findRoutes :: "(string \<Rightarrow> bool) \<Rightarrow> string \<Rightarrow> VirtualService \<Rightarrow> nat list" where
  "findRoutes hostMatch subsetName vs =
     concat (map (\<lambda>k. map (\<lambda>r. k) (filter (targets hostMatch subsetName) (Route (Http vs ! k))))
               [0..<length (Http vs)])"

text \<open>
  The loop of \<open>removeOtherRoutes\<close> on a Go slice. A slice is a backing array and a length.
  \<open>range\<close> fixes the indices to visit on entry and reads the backing array at each index
  as it is at that moment. Removing index \<open>i\<close> with
  \<open>append (s[:i], s[i+1:]...)\<close> panics when \<open>i + 1\<close> exceeds the current length; otherwise
  it moves the elements after \<open>i\<close> one place to the left inside the same backing array
  (whose last cell keeps its old content) and the slice is one shorter.
\<close>

fun removeOther :: "('a \<Rightarrow> bool) \<Rightarrow> nat list \<Rightarrow> 'a list \<times> nat \<Rightarrow> panic + ('a list \<times> nat)" where
  "removeOther keep [] (arr, len) = Inr (arr, len)"
| "removeOther keep (i # rest) (arr, len) =
     (if keep (arr ! i) then removeOther keep rest (arr, len)
      else if i + 1 > len then Inl SliceBounds
      else removeOther keep rest (take i arr @ drop (i + 1) (take len arr) @ drop (len - 1) arr, len - 1))"

text \<open>
  The rules of \<open>clonedSource\<close> that the mutators rewrite. A rule's \<open>Route\<close> is a slice of
  pointers: the store of a rule is the backing array of pointers together with the
  objects they point to. The copies of a rule that \<open>simplifyTargetRoute\<close> works on share
  both with the rule they were copied from, and with each other.
\<close>

type_synonym RouteStore = "nat list \<times> HTTPRouteDestination list"

definition removeOtherRoutes :: "(string \<Rightarrow> bool) \<Rightarrow> string \<Rightarrow> RouteStore \<Rightarrow> panic + (nat list \<times> nat)" where
  "removeOtherRoutes hostMatch subsetName store =
     (case store of
        (arr, objs) \<Rightarrow>
          removeOther (\<lambda>p. targets hostMatch subsetName (objs ! p)) [0..<length arr] (arr, length arr))"

fun updateSubset :: "string \<Rightarrow> nat list \<Rightarrow> HTTPRouteDestination list \<Rightarrow> panic + HTTPRouteDestination list" where
  "updateSubset subsetName [] objs = Inr objs"
| "updateSubset subsetName (p # rest) objs =
     (case Destination (objs ! p) of
        None \<Rightarrow> Inl NilDereference
      | Some d \<Rightarrow> updateSubset subsetName rest (objs[p := (objs ! p)\<lparr>Destination := Some (d\<lparr>Subset := subsetName\<rparr>)\<rparr>]))"

fun removeWeight :: "nat list \<Rightarrow> HTTPRouteDestination list \<Rightarrow> HTTPRouteDestination list" where
  "removeWeight [] objs = objs"
| "removeWeight (p # rest) objs = removeWeight rest (objs[p := (objs ! p)\<lparr>Weight := 0\<rparr>])"

definition addHeader :: "Route \<Rightarrow> HTTPMatchRequest \<Rightarrow> HTTPMatchRequest" where
  "addHeader route m =
     (if rType route = ''header'' then m\<lparr>mHeaders := (mHeaders m)(rName route \<mapsto> Exact (rValue route))\<rparr> else m)"

definition addHeaderMatch :: "HTTPMatchRequest list \<Rightarrow> Route \<Rightarrow> HTTPMatchRequest list" where
  "addHeaderMatch ms route =
     (if length ms > 0 then map (addHeader route) ms
      else ms @ [addHeader route \<lparr>mName = [], mHeaders = Map.empty\<rparr>])"

definition addHeaderRequest :: "HTTPRoute \<Rightarrow> Route \<Rightarrow> panic + HTTPRoute" where
  "addHeaderRequest http route =
     (let headers = (case Headers http of
                       None \<Rightarrow> \<lparr>Request = Some \<lparr>hoSet = Map.empty, Add = Some Map.empty, hoRemove = []\<rparr>,
                                Response = None\<rparr>
                     | Some h \<Rightarrow> h);
          request = (case Request headers of
                       None \<Rightarrow> \<lparr>hoSet = Map.empty, Add = Some Map.empty, hoRemove = []\<rparr>
                     | Some r \<Rightarrow> r)
      in case Add request of
           None \<Rightarrow> Inl NilMapWrite
         | Some add \<Rightarrow>
             Inr (http\<lparr>Headers :=
                    Some (headers\<lparr>Request := Some (request\<lparr>Add := Some (add(rName route \<mapsto> rValue route))\<rparr>)\<rparr>)\<rparr>))"

text \<open>A rule prepended to the target: the rule it was copied from, the length of its
  \<open>Route\<close> slice and its own \<open>Match\<close>. Its destinations are read from the store.\<close>

record Prepended =
  pRule :: nat
  pLen :: nat
  pMatch :: "HTTPMatchRequest list"

type_synonym Rewriting = "RouteStore list \<times> Prepended list"


definition simplifyTargetRoute ::
  "Route \<Rightarrow> HTTPRoute list \<Rightarrow> (string \<Rightarrow> bool) \<Rightarrow> string \<Rightarrow> string \<Rightarrow> nat \<Rightarrow> Rewriting \<Rightarrow> panic + Rewriting" where
  "simplifyTargetRoute route rules hostMatch version newVersion k state =
     (case state of
        (stores, target) \<Rightarrow>
          (case removeOtherRoutes hostMatch version (stores ! k) of
             Inl p \<Rightarrow> Inl p
           | Inr (arr, len) \<Rightarrow>
               (case updateSubset newVersion (take len arr) (snd (stores ! k)) of
                  Inl p \<Rightarrow> Inl p
                | Inr objs \<Rightarrow>
                    Inr (stores[k := (arr, removeWeight (take len arr) objs)],
                         \<lparr>pRule = k, pLen = len, pMatch = addHeaderMatch (Match (rules ! k)) route\<rparr> # target))))"

fun forEachTarget :: "(nat \<Rightarrow> Rewriting \<Rightarrow> panic + Rewriting) \<Rightarrow> nat list \<Rightarrow> Rewriting \<Rightarrow> panic + Rewriting" where
  "forEachTarget simplify [] state = Inr state"
| "forEachTarget simplify (k # rest) state =
     (case simplify k state of Inl p \<Rightarrow> Inl p | Inr state' \<Rightarrow> forEachTarget simplify rest state')"

definition clonedRoutes :: "VirtualService \<Rightarrow> RouteStore list" where
  "clonedRoutes source = map (\<lambda>http. ([0..<length (Route http)], Route http)) (Http source)"

definition prependedRule :: "HTTPRoute list \<Rightarrow> RouteStore list \<Rightarrow> Prepended \<Rightarrow> HTTPRoute" where
  "prependedRule rules stores e =
     (rules ! pRule e)
       \<lparr>Match := pMatch e,
        Route := map (\<lambda>p. snd (stores ! pRule e) ! p) (take (pLen e) (fst (stores ! pRule e))),
        Redirect := None,
        Mirror := None\<rparr>"

definition mutateVirtualService ::
  "SessionContext \<Rightarrow> (string \<Rightarrow> bool) \<Rightarrow> string \<Rightarrow> string \<Rightarrow> VirtualService \<Rightarrow> panic + (error + VirtualService)" where
  "mutateVirtualService ctx hostMatch version newVersion source =
     (let targetsHTTP = findRoutes hostMatch version source in
      if length targetsHTTP = 0 then Inr (Inl RouteNotFound)
      else
        (case forEachTarget (simplifyTargetRoute (ctxRoute ctx) (Http source) hostMatch version newVersion)
                targetsHTTP (clonedRoutes source, []) of
           Inl p \<Rightarrow> Inl p
         | Inr (stores, prepended) \<Rightarrow>
             Inr (Inr (source\<lparr>Http := map (prependedRule (Http source) stores) prepended @ Http source\<rparr>))))"














subsection \<open>Vocabulary for the mesh route manipulator\<close>






subsection \<open>Routes used in the examples\<close>

text \<open>Builders for destinations, rules and VirtualServices.\<close>

definition dest :: "string \<Rightarrow> string \<Rightarrow> int \<Rightarrow> HTTPRouteDestination" where
  "dest h s w = \<lparr>Destination = Some \<lparr>Host = h, Subset = s\<rparr>, Weight = w\<rparr>"

definition plainRule :: "HTTPRouteDestination list \<Rightarrow> HTTPRoute" where
  "plainRule ds = \<lparr>Match = [], Route = ds, Redirect = None, Mirror = None, Headers = None\<rparr>"

definition serviceOf :: "string \<Rightarrow> string list \<Rightarrow> HTTPRoute list \<Rightarrow> VirtualService" where
  "serviceOf n gws rs = \<lparr>vsName = n, ResourceVersion = ''41'', Labels = Map.empty, References = [],
     Gateways = gws, vsHosts = [''ratings''], Http = rs\<rparr>"

text \<open>The target host, and a \<open>HostName.Match\<close> that compares with the short name.\<close>

definition ratingsHost :: HostName where
  "ratingsHost = \<lparr>hnName = ''ratings'', hnNamespace = ''bookinfo''\<rparr>"

definition shortMatch :: "HostName \<Rightarrow> string \<Rightarrow> bool" where
  "shortMatch h fqdn \<longleftrightarrow> hnName h = fqdn"

text \<open>A rule with two alternative destinations before the one for the host, and the
  same destinations with the one for the host first.\<close>

definition skewedService :: VirtualService where
  "skewedService = serviceOf ''ratings-vs'' []
     [plainRule [dest ''a'' ''v1'' 10, dest ''b'' ''v1'' 20, dest ''ratings'' ''v1'' 70]]"

definition crashingService :: VirtualService where
  "crashingService = serviceOf ''ratings-vs'' []
     [plainRule [dest ''ratings'' ''v1'' 70, dest ''a'' ''v1'' 10, dest ''b'' ''v1'' 20]]"

text \<open>The match on the session's header that \<open>addHeaderMatch\<close> puts on a rule without
  match clauses.\<close>

definition headerMatch :: HTTPMatchRequest where
  "headerMatch = \<lparr>mName = [], mHeaders = [''x-test'' \<mapsto> Exact ''smoke'']\<rparr>"

text \<open>A rule that sets a request header and adds none: \<open>Add\<close> is nil.\<close>

definition setOnlyRule :: HTTPRoute where
  "setOnlyRule = \<lparr>Match = [], Route = [dest ''ratings'' ''v1'' 100], Redirect = None, Mirror = None,
     Headers = Some \<lparr>Request = Some \<lparr>hoSet = [''x-env'' \<mapsto> ''prod''], Add = None, hoRemove = []\<rparr>,
                     Response = None\<rparr>\<rparr>"









subsection \<open>Vocabulary for gateways mutated for several sessions\<close>




section \<open>Properties of the workload manipulator\<close>

lemma revertDeployments_append:
  "\<forall>s\<in>set done. deleted c ctx s \<Longrightarrow>
   revertDeployments c ctx (done @ rest) ref =
     (case revertDeployments c ctx rest (removeReverted ref done) of
        (err, ref', calls) \<Rightarrow>
          (err, ref', map (\<lambda>s. DeleteDeployment (ctxNamespace ctx) (rsName s)) done @ calls))"
  by (induction "done" arbitrary: ref) (auto simp: deleted_def removeReverted_def split: prod.splits)

lemma removeReverted_keeps:
  "s \<in> set (ResourceStatuses ref) \<Longrightarrow> rsName s \<notin> rsName ` set done \<Longrightarrow>
   s \<in> set (ResourceStatuses (removeReverted ref done))"
  by (induction "done" arbitrary: ref)
     (auto simp: removeReverted_def RemoveResourceStatus_def sameResource_def NewSuccessResource_def)

lemma removeReverted_gone:
  "rsKind s = DeploymentKind \<Longrightarrow> rsName s \<in> rsName ` set done \<Longrightarrow>
   s \<notin> set (ResourceStatuses (removeReverted ref done))"
proof (induction "done" arbitrary: ref rule: rev_induct)
  case Nil
  then show ?case by simp
next
  case (snoc x xs)
  show ?case
  proof (cases "rsName s = rsName x")
    case True
    then show ?thesis using snoc.prems(1)
      by (simp add: removeReverted_def RemoveResourceStatus_def sameResource_def NewSuccessResource_def)
  next
    case False
    with snoc.prems have "rsName s \<in> rsName ` set xs" by auto
    from snoc.IH[OF snoc.prems(1) this]
    show ?thesis
      by (simp add: removeReverted_def RemoveResourceStatus_def)
  qed
qed

lemma AddResourceStatus_present:
  "list_ex (sameResource s) (ResourceStatuses (AddResourceStatus s r))"
  by (auto simp: AddResourceStatus_def list_ex_iff sameResource_def)

text \<open>
  C1, as the spec states it, fails: on a cluster from which the clone is gone the delete
  reports NotFound, the revertor returns success, and the status is still on the ref.
\<close>

theorem DeploymentRevertor_notfound_keeps_status:
  "fst (DeploymentRevertor goneClient demoCtx demoRef) = None \<and>
   ratingsClone \<in> set (ResourceStatuses (fst (snd (DeploymentRevertor goneClient demoCtx demoRef))))"
  by (simp add: DeploymentRevertor_def GetResources_def demoRef_def ratingsClone_def reviewsClone_def
      NewSuccessResource_def DeploymentKind_def goneClient_def demoCtx_def)

text \<open>
  C1, amended. Let \<open>status\<close> be a Deployment status of the ref that the loop reaches: the
  deletes of all Deployment statuses before it succeeded. The revertor deletes the
  deployment named by \<open>status\<close> in the session namespace, and
  \<^item> when the delete succeeds, \<open>status\<close> is taken off the ref and the loop goes on with
    the statuses after it;
  \<^item> when the delete reports NotFound, the revertor returns success and \<open>status\<close> is left
    on the ref (unless an earlier status of the same name took it off);
  \<^item> on any other error the revertor returns the wrapped error and the ref holds a
    status of the kind and name of \<open>status\<close>.
\<close>

theorem DeploymentRevertor_reached_status:
  assumes sel: "GetResources DeploymentKind ref = done @ status # rest"
    and ok: "\<forall>s\<in>set done. deleted c ctx s"
  shows "(Delete c (ctxNamespace ctx) (rsName status) = None \<longrightarrow>
            status \<notin> set (ResourceStatuses (removeReverted ref (done @ [status]))) \<and>
            DeploymentRevertor c ctx ref =
              (case revertDeployments c ctx rest (removeReverted ref (done @ [status])) of
                 (err, ref', calls) \<Rightarrow> (err, ref', map (deleteCall ctx) (done @ [status]) @ calls)))
       \<and> (\<forall>e. Delete c (ctxNamespace ctx) (rsName status) = Some e \<and> IsNotFound e \<longrightarrow>
            fst (DeploymentRevertor c ctx ref) = None \<and>
            deleteCall ctx status \<in> set (snd (snd (DeploymentRevertor c ctx ref))) \<and>
            (rsName status \<notin> rsName ` set done \<longrightarrow>
               status \<in> set (ResourceStatuses (fst (snd (DeploymentRevertor c ctx ref))))))
       \<and> (\<forall>e. Delete c (ctxNamespace ctx) (rsName status) = Some e \<and> \<not> IsNotFound e \<longrightarrow>
            fst (DeploymentRevertor c ctx ref) = Some (Wrap ''failed to delete Deployment'' e) \<and>
            deleteCall ctx status \<in> set (snd (snd (DeploymentRevertor c ctx ref))) \<and>
            list_ex (sameResource status) (ResourceStatuses (fst (snd (DeploymentRevertor c ctx ref)))))"
proof -
  have "status \<in> set (GetResources DeploymentKind ref)"
    using sel by simp
  then have kind: "rsKind status = DeploymentKind" and mem: "status \<in> set (ResourceStatuses ref)"
    by (simp_all add: GetResources_def)
  have run: "DeploymentRevertor c ctx ref =
      (case revertDeployments c ctx (status # rest) (removeReverted ref done) of
         (err, ref', calls) \<Rightarrow> (err, ref', map (\<lambda>s. DeleteDeployment (ctxNamespace ctx) (rsName s)) done @ calls))"
    unfolding DeploymentRevertor_def sel by (rule revertDeployments_append[OF ok])
  have step: "removeReverted ref (done @ [status]) =
      RemoveResourceStatus (NewSuccessResource DeploymentKind (rsName status) (rsAction status))
        (removeReverted ref done)"
    by (simp add: removeReverted_def)
  have same: "sameResource status (NewFailedResource DeploymentKind (rsName status) (rsAction status) msg)" for msg
    using kind by (simp add: sameResource_def NewFailedResource_def)
  have c1: "Delete c (ctxNamespace ctx) (rsName status) = None \<longrightarrow>
            status \<notin> set (ResourceStatuses (removeReverted ref (done @ [status]))) \<and>
            DeploymentRevertor c ctx ref =
              (case revertDeployments c ctx rest (removeReverted ref (done @ [status])) of
                 (err, ref', calls) \<Rightarrow> (err, ref', map (deleteCall ctx) (done @ [status]) @ calls))"
  proof
    assume d: "Delete c (ctxNamespace ctx) (rsName status) = None"
    have "status \<notin> set (ResourceStatuses (removeReverted ref (done @ [status])))"
      by (rule removeReverted_gone[OF kind]) simp
    moreover have "DeploymentRevertor c ctx ref =
              (case revertDeployments c ctx rest (removeReverted ref (done @ [status])) of
                 (err, ref', calls) \<Rightarrow> (err, ref', map (deleteCall ctx) (done @ [status]) @ calls))"
      unfolding run step using d by (simp add: deleteCall_def split: prod.splits)
    ultimately show "status \<notin> set (ResourceStatuses (removeReverted ref (done @ [status]))) \<and>
            DeploymentRevertor c ctx ref =
              (case revertDeployments c ctx rest (removeReverted ref (done @ [status])) of
                 (err, ref', calls) \<Rightarrow> (err, ref', map (deleteCall ctx) (done @ [status]) @ calls))"
      by simp
  qed
  have c2: "\<forall>e. Delete c (ctxNamespace ctx) (rsName status) = Some e \<and> IsNotFound e \<longrightarrow>
            fst (DeploymentRevertor c ctx ref) = None \<and>
            deleteCall ctx status \<in> set (snd (snd (DeploymentRevertor c ctx ref))) \<and>
            (rsName status \<notin> rsName ` set done \<longrightarrow>
               status \<in> set (ResourceStatuses (fst (snd (DeploymentRevertor c ctx ref)))))"
    unfolding run using removeReverted_keeps[OF mem] by (auto simp: deleteCall_def)
  have c3: "\<forall>e. Delete c (ctxNamespace ctx) (rsName status) = Some e \<and> \<not> IsNotFound e \<longrightarrow>
            fst (DeploymentRevertor c ctx ref) = Some (Wrap ''failed to delete Deployment'' e) \<and>
            deleteCall ctx status \<in> set (snd (snd (DeploymentRevertor c ctx ref))) \<and>
            list_ex (sameResource status) (ResourceStatuses (fst (snd (DeploymentRevertor c ctx ref))))"
  proof (intro allI impI)
    fix e
    assume a: "Delete c (ctxNamespace ctx) (rsName status) = Some e \<and> \<not> IsNotFound e"
    let ?failed = "NewFailedResource DeploymentKind (rsName status) (rsAction status) (Error e)"
    have "list_ex (sameResource ?failed) (ResourceStatuses (AddResourceStatus ?failed (removeReverted ref done)))"
      by (rule AddResourceStatus_present)
    then have q: "list_ex (sameResource status)
        (ResourceStatuses (AddResourceStatus ?failed (removeReverted ref done)))"
      using same[of "Error e"] by (auto simp: list_ex_iff sameResource_def)
    show "fst (DeploymentRevertor c ctx ref) = Some (Wrap ''failed to delete Deployment'' e) \<and>
            deleteCall ctx status \<in> set (snd (snd (DeploymentRevertor c ctx ref))) \<and>
            list_ex (sameResource status) (ResourceStatuses (fst (snd (DeploymentRevertor c ctx ref))))"
      unfolding run using a q by (simp add: deleteCall_def)
  qed
  from c1 c2 c3 show ?thesis by blast
qed

theorem DeploymentRevertor_reached_status_witness:
  "GetResources DeploymentKind demoRef = [ratingsClone] @ reviewsClone # []
   \<and> deleted (replyClient None) demoCtx ratingsClone
   \<and> fst (DeploymentRevertor (replyClient (Some NotFound)) demoCtx demoRef) = None
   \<and> reviewsClone \<in> set (ResourceStatuses (fst (snd (DeploymentRevertor (replyClient (Some NotFound)) demoCtx demoRef))))
   \<and> fst (DeploymentRevertor (replyClient (Some (Failure ''conflict''))) demoCtx demoRef)
       = Some (Wrap ''failed to delete Deployment'' (Failure ''conflict''))
   \<and> list_ex (sameResource reviewsClone)
       (ResourceStatuses (fst (snd (DeploymentRevertor (replyClient (Some (Failure ''conflict''))) demoCtx demoRef))))
   \<and> reviewsClone \<notin> set (ResourceStatuses (removeReverted demoRef [ratingsClone, reviewsClone]))
   \<and> DeploymentRevertor (replyClient None) demoCtx demoRef =
       (None, removeReverted demoRef [ratingsClone, reviewsClone],
        [deleteCall demoCtx ratingsClone, deleteCall demoCtx reviewsClone])"
proof -
  have sel: "GetResources DeploymentKind demoRef = [ratingsClone] @ reviewsClone # []"
    by (simp add: GetResources_def demoRef_def ratingsClone_def reviewsClone_def NewSuccessResource_def)
  have ok: "\<forall>s\<in>set [ratingsClone]. deleted (replyClient r) demoCtx s" for r
    by (simp add: deleted_def replyClient_def ratingsClone_def NewSuccessResource_def)
  have reply: "Delete (replyClient r) (ctxNamespace demoCtx) (rsName reviewsClone) = r" for r
    by (simp add: replyClient_def reviewsClone_def NewSuccessResource_def)
  have names: "rsName reviewsClone \<notin> rsName ` set [ratingsClone]"
    by (simp add: ratingsClone_def reviewsClone_def NewSuccessResource_def)
  show ?thesis
    using DeploymentRevertor_reached_status[OF sel ok, of "Some NotFound"]
      DeploymentRevertor_reached_status[OF sel ok, of "Some (Failure ''conflict'')"]
      DeploymentRevertor_reached_status[OF sel ok, of None] sel ok[of None] names
    by (simp add: reply)
qed

text \<open>
  C9. A ref with strategy Existing whose located Deployment target is found in the
  cluster: the mutator returns no error, writes nothing to the cluster and leaves the
  ref, and with it the ledger, as it was.
\<close>

theorem DeploymentMutator_existing:
  assumes "Strategy ref = StrategyExisting"
    and "GetTargets DeploymentKind ref = target # others"
    and "Get c (ctxNamespace ctx) (lrName target) = Inr deployment"
  shows "DeploymentMutator cloneDeployment referenceAdd newVersion c ctx ref = (None, ref, [])"
  using assms by (simp add: DeploymentMutator_def getDeployment_def)

theorem DeploymentMutator_existing_witness:
  "Strategy existingRef = StrategyExisting
   \<and> GetTargets DeploymentKind existingRef = ratingsTarget # []
   \<and> Get (replyClient None) (ctxNamespace demoCtx) (lrName ratingsTarget) = Inr ratingsDeployment
   \<and> DeploymentMutator suffixClone id ''v1-demo'' (replyClient None) demoCtx existingRef = (None, existingRef, [])"
proof -
  have a: "Strategy existingRef = StrategyExisting"
    by (simp add: existingRef_def)
  have b: "GetTargets DeploymentKind existingRef = ratingsTarget # []"
    by (simp add: GetTargets_def existingRef_def ratingsTarget_def)
  have c: "Get (replyClient None) (ctxNamespace demoCtx) (lrName ratingsTarget) = Inr ratingsDeployment"
    by (simp add: replyClient_def ratingsTarget_def)
  show ?thesis
    using DeploymentMutator_existing[OF a b c, of suffixClone id "''v1-demo''"] a b c by simp
qed

section \<open>Properties of the gateway manipulator\<close>


lemma existInList_set [simp]: "existInList xs x \<longleftrightarrow> x \<in> set xs"
  by (induction xs) auto

lemma removeFromList_remove1: "removeFromList xs x = remove1 x xs"
  by (induction xs) auto

lemma Split_nonempty [simp]: "Split s c \<noteq> []"
  by (induction s) (auto split: list.splits)

lemma Split_free: "c \<notin> set s \<Longrightarrow> Split s c = [s]"
  by (induction s) (auto split: list.splits)

lemma Split_append_sep: "c \<notin> set t \<Longrightarrow> Split (t @ c # r) c = t # Split r c"
  by (induction t) (auto split: list.splits)

lemma Join_Cons: "xs \<noteq> [] \<Longrightarrow> Join (x # xs) c = x @ c # Join xs c"
  by (cases xs) auto

lemma Split_Join:
  "xs \<noteq> [] \<Longrightarrow> \<forall>x\<in>set xs. c \<notin> set x \<Longrightarrow> Split (Join xs c) c = xs"
proof (induction xs)
  case Nil
  then show ?case by simp
next
  case (Cons x xs)
  show ?case
  proof (cases "xs = []")
    case True
    then show ?thesis using Cons.prems by (simp add: Split_free)
  next
    case False
    then have "Split (Join xs c) c = xs" using Cons by simp
    then show ?thesis using False Cons.prems by (simp add: Join_Cons Split_append_sep)
  qed
qed


lemma Join_eq_Nil: "Join xs c = [] \<Longrightarrow> xs = [] \<or> xs = [[]]"
  by (induction xs c rule: Join.induct) auto

lemma addSessionHosts_appends:
  "addSessionHosts name hs (ex, hosts, added) = (ex', hosts', added') \<Longrightarrow>
   \<exists>new. ex' = ex @ new \<and> hosts' = hosts @ new \<and> set new \<subseteq> sessionHost name ` set hs \<and>
         (distinct ex \<longrightarrow> distinct ex')"
proof (induction hs arbitrary: ex hosts added)
  case Nil
  then show ?case by simp
next
  case (Cons h hs)
  let ?n = "name @ ''.'' @ h"
  show ?case
  proof (cases "h \<notin> set ex \<and> ?n \<notin> set ex")
    case True
    with Cons.prems have "addSessionHosts name hs (ex @ [?n], hosts @ [?n], added @ [?n]) = (ex', hosts', added')"
      by (simp add: Let_def)
    from Cons.IH[OF this] obtain new where
      n: "ex' = (ex @ [?n]) @ new" "hosts' = (hosts @ [?n]) @ new" "set new \<subseteq> sessionHost name ` set hs"
         "distinct (ex @ [?n]) \<longrightarrow> distinct ex'" by blast
    have "ex' = ex @ (?n # new) \<and> hosts' = hosts @ (?n # new) \<and>
          set (?n # new) \<subseteq> sessionHost name ` set (h # hs) \<and> (distinct ex \<longrightarrow> distinct ex')"
      using n True by (auto simp: sessionHost_def)
    then show ?thesis by blast
  next
    case False
    with Cons.prems have "\<exists>a. addSessionHosts name hs (ex, hosts, a) = (ex', hosts', added')"
      by (auto simp: Let_def split: if_splits)
    then obtain a where "addSessionHosts name hs (ex, hosts, a) = (ex', hosts', added')" ..
    from Cons.IH[OF this] show ?thesis by auto
  qed
qed

lemma repairHosts_appends: "\<exists>extra. repairHosts ex hosts = hosts @ extra \<and> set extra \<subseteq> set ex"
proof (induction ex arbitrary: hosts)
  case Nil
  then show ?case by simp
next
  case (Cons e ex)
  show ?case
  proof (cases "e \<notin> set hosts \<and> baseHost e \<in> set hosts")
    case True
    from Cons.IH[of "hosts @ [e]"] obtain extra where
      "repairHosts ex (hosts @ [e]) = (hosts @ [e]) @ extra" "set extra \<subseteq> set ex" by blast
    then have "repairHosts (e # ex) hosts = hosts @ (e # extra) \<and> set (e # extra) \<subseteq> set (e # ex)"
      using True by auto
    then show ?thesis by blast
  next
    case False
    from Cons.IH[of hosts] obtain extra where
      "repairHosts ex hosts = hosts @ extra" "set extra \<subseteq> set ex" by blast
    then have "repairHosts (e # ex) hosts = hosts @ extra \<and> set extra \<subseteq> set (e # ex)"
      using False by auto
    then show ?thesis by blast
  qed
qed

lemma mutateServers_appends:
  "mutateServers name servers (ex, added) = (servers', ex', added') \<Longrightarrow>
   \<exists>new apps. ex' = ex @ new \<and> length apps = length servers \<and> servers' = extendServers servers apps \<and>
     (\<forall>app\<in>set apps. set app \<subseteq> set ex') \<and> set new \<subseteq> \<Union>(set ` set apps) \<and>
     set new \<subseteq> sessionHost name ` set (concat (map Hosts servers)) \<and> (distinct ex \<longrightarrow> distinct ex')"
proof (induction servers arbitrary: ex added servers' ex' added')
  case Nil
  then have "ex' = ex @ [] \<and> length ([]::string list list) = length ([]::Server list) \<and> servers' = extendServers [] []"
    by (simp add: extendServers_def)
  then show ?case by (intro exI[of _ "[]"]) auto
next
  case (Cons s servers)
  obtain ex1 hosts1 added1 where a: "addSessionHosts name (Hosts s) (ex, Hosts s, added) = (ex1, hosts1, added1)"
    by (cases "addSessionHosts name (Hosts s) (ex, Hosts s, added)") auto
  obtain ss ex2 added2 where m: "mutateServers name servers (ex1, added1) = (ss, ex2, added2)"
    by (cases "mutateServers name servers (ex1, added1)") auto
  from Cons.prems a m have res: "servers' = s\<lparr>Hosts := repairHosts ex1 hosts1\<rparr> # ss" "ex' = ex2" by auto
  from addSessionHosts_appends[OF a] obtain new1 where
    n1: "ex1 = ex @ new1" "hosts1 = Hosts s @ new1" "set new1 \<subseteq> sessionHost name ` set (Hosts s)"
        "distinct ex \<longrightarrow> distinct ex1" by blast
  from repairHosts_appends[of ex1 hosts1] obtain extra where
    r: "repairHosts ex1 hosts1 = hosts1 @ extra" "set extra \<subseteq> set ex1" by blast
  from Cons.IH[OF m] obtain new2 apps where
    n2: "ex2 = ex1 @ new2" "length apps = length servers" "ss = extendServers servers apps"
        "\<forall>app\<in>set apps. set app \<subseteq> set ex2" "set new2 \<subseteq> \<Union>(set ` set apps)"
        "set new2 \<subseteq> sessionHost name ` set (concat (map Hosts servers))" "distinct ex1 \<longrightarrow> distinct ex2"
    by blast
  let ?apps = "(new1 @ extra) # apps"
  have 1: "ex' = ex @ (new1 @ new2)" using res n1 n2 by simp
  have 2: "length ?apps = length (s # servers)" using n2 by simp
  have 3: "servers' = extendServers (s # servers) ?apps"
    using res r n1 n2 by (simp add: extendServers_def)
  have 4: "\<forall>app\<in>set ?apps. set app \<subseteq> set ex'"
    using n2(4) r(2) n1(1) n2(1) res(2) by auto
  have 5: "set (new1 @ new2) \<subseteq> \<Union>(set ` set ?apps)" using n2(5) by auto
  have 6: "set (new1 @ new2) \<subseteq> sessionHost name ` set (concat (map Hosts (s # servers)))"
    using n1(3) n2(6) by (auto simp: image_Un)
  have 7: "distinct ex \<longrightarrow> distinct ex'" using n1(4) n2(7) res(2) by simp
  from 1 2 3 4 5 6 7 show ?case by blast
qed

lemma removeSessionHosts_filter:
  "removeSessionHosts name ex hs =
     (filter (\<lambda>h. \<not> (h \<in> set ex \<and> HasPrefix h (name @ ''.''))) hs,
      filter (\<lambda>h. h \<in> set ex \<and> HasPrefix h (name @ ''.'')) hs)"
  by (induction hs) auto

lemma revertServers_filter:
  "revertServers name ex servers =
     (map (\<lambda>s. s\<lparr>Hosts := filter (\<lambda>h. \<not> (h \<in> set ex \<and> HasPrefix h (name @ ''.''))) (Hosts s)\<rparr>) servers,
      concat (map (\<lambda>s. filter (\<lambda>h. h \<in> set ex \<and> HasPrefix h (name @ ''.'')) (Hosts s)) servers))"
  by (induction servers) (auto simp: removeSessionHosts_filter)

lemma foldl_removeFromList:
  "distinct xs \<Longrightarrow> distinct (foldl removeFromList xs ys) \<and> set (foldl removeFromList xs ys) = set xs - set ys"
  by (induction ys arbitrary: xs) (auto simp: removeFromList_remove1)

lemma HasPrefix_sessionHost: "HasPrefix (sessionHost name h) (name @ ''.'')"
  by (simp add: HasPrefix_def sessionHost_def)



lemma revert_extendServers:
  "length apps = length servers \<Longrightarrow>
   \<forall>s\<in>set servers. \<forall>h\<in>set (Hosts s). \<not> R h \<Longrightarrow>
   \<forall>app\<in>set apps. \<forall>h\<in>set app. R h \<Longrightarrow>
   map (\<lambda>s. s\<lparr>Hosts := filter (\<lambda>h. \<not> R h) (Hosts s)\<rparr>) (extendServers servers apps) = servers \<and>
   concat (map (\<lambda>s. filter R (Hosts s)) (extendServers servers apps)) = concat apps"
proof (induction apps servers rule: list_induct2)
  case Nil
  then show ?case by (simp add: extendServers_def)
next
  case (Cons app apps s servers)
  have a: "filter (\<lambda>h. \<not> R h) (Hosts s) = Hosts s" "filter R (Hosts s) = []"
    using Cons.prems(1) by (auto simp: filter_empty_conv)
  have b: "filter (\<lambda>h. \<not> R h) app = []" "filter R app = app"
    using Cons.prems(2) by (auto simp: filter_empty_conv)
  have ih: "map (\<lambda>s. s\<lparr>Hosts := filter (\<lambda>h. \<not> R h) (Hosts s)\<rparr>) (extendServers servers apps) = servers \<and>
   concat (map (\<lambda>s. filter R (Hosts s)) (extendServers servers apps)) = concat apps"
    using Cons by simp
  show ?case using ih a b by (simp add: extendServers_def)
qed

lemma recordedHosts_Join:
  assumes "\<forall>x\<in>set ex. x \<noteq> [] \<and> commaFree x"
  shows "recordedHosts (g\<lparr>Servers := ss, Annotations := (Annotations g)(LabelIkeHosts \<mapsto> Join ex CHR '','')\<rparr>) = ex"
proof (cases "ex = []")
  case True
  then show ?thesis by (simp add: recordedHosts_def)
next
  case False
  have "Join ex CHR '','' \<noteq> []"
  proof
    assume "Join ex CHR '','' = []"
    then have "ex = [] \<or> ex = [[]]" by (rule Join_eq_Nil)
    then show False using False assms by auto
  qed
  moreover have "Split (Join ex CHR '','') CHR '','' = ex"
    using False assms by (intro Split_Join) (auto simp: commaFree_def)
  ultimately show ?thesis by (simp add: recordedHosts_def)
qed

text \<open>
  C4, amended. For a gateway without the \<open>ike.hosts\<close> annotation whose server hosts do not
  begin with the session's prefix, and where neither a server host nor the session name
  contains a comma (the separator of the annotation), reverting after mutating for the
  same session gives back the host list of every server and leaves no \<open>ike.hosts\<close> key.
\<close>

theorem revertGateway_mutateGateway:
  assumes ann: "Annotations g LabelIkeHosts = None"
    and clean: "\<forall>h\<in>set (allHosts g). \<not> HasPrefix h (name @ ''.'') \<and> commaFree h"
    and cn: "commaFree name"
  shows "serverHosts (revertGateway name (fst (mutateGateway name g))) = serverHosts g \<and>
         Annotations (revertGateway name (fst (mutateGateway name g))) LabelIkeHosts = None"
proof -
  have rec: "recordedHosts g = []" using ann by (simp add: recordedHosts_def)
  obtain servers' ex' added' where m: "mutateServers name (Servers g) ([], []) = (servers', ex', added')"
    by (cases "mutateServers name (Servers g) ([], [])") auto
  from mutateServers_appends[OF m] obtain apps where
    ap: "length apps = length (Servers g)" "servers' = extendServers (Servers g) apps"
        "\<forall>app\<in>set apps. set app \<subseteq> set ex'" "set ex' \<subseteq> \<Union>(set ` set apps)"
        "set ex' \<subseteq> sessionHost name ` set (allHosts g)" "distinct ex'"
    by (auto simp: allHosts_def)
  define g' where "g' = g\<lparr>Servers := servers', Annotations := (Annotations g)(LabelIkeHosts \<mapsto> Join ex' CHR '','')\<rparr>"
  have g': "fst (mutateGateway name g) = g'"
    by (simp add: mutateGateway_def rec m g'_def)
  have shape: "\<forall>x\<in>set ex'. x \<noteq> [] \<and> commaFree x \<and> HasPrefix x (name @ ''.'')"
  proof
    fix x assume "x \<in> set ex'"
    then obtain h where h: "h \<in> set (allHosts g)" "x = sessionHost name h" using ap(5) by auto
    have "commaFree h" using clean h(1) by simp
    then show "x \<noteq> [] \<and> commaFree x \<and> HasPrefix x (name @ ''.'')"
      using cn h(2) by (simp add: sessionHost_def commaFree_def HasPrefix_def)
  qed
  have rec': "recordedHosts g' = ex'"
    unfolding g'_def using shape by (intro recordedHosts_Join) simp
  have srv: "Servers g' = extendServers (Servers g) apps" by (simp add: g'_def ap(2))
  let ?R = "\<lambda>h. h \<in> set ex' \<and> HasPrefix h (name @ ''.'')"
  have own: "\<forall>s\<in>set (Servers g). \<forall>h\<in>set (Hosts s). \<not> ?R h"
    using clean by (auto simp: allHosts_def)
  have added: "\<forall>app\<in>set apps. \<forall>h\<in>set app. ?R h"
    using ap(3) shape by blast
  note rv = revert_extendServers[of apps "Servers g" ?R, OF ap(1) own added]
  have kept: "fst (revertServers name ex' (Servers g')) = Servers g"
    using rv by (simp add: revertServers_filter srv)
  have removed: "snd (revertServers name ex' (Servers g')) = concat apps"
    using rv by (simp add: revertServers_filter srv)
  have "set (remainingHosts name g') = set ex' - set (concat apps)"
    unfolding remainingHosts_def rec' removed using foldl_removeFromList[OF ap(6)] by simp
  also have "\<dots> = {}" using ap(4) by auto
  finally have rem: "remainingHosts name g' = []" by (simp only: set_empty)
  have "Servers (revertGateway name g') = Servers g"
    by (simp add: revertGateway_def rec' kept)
  moreover have "Annotations (revertGateway name g') LabelIkeHosts = None"
    by (simp add: revertGateway_def rem)
  ultimately show ?thesis by (simp add: g' serverHosts_def)
qed



lemmas gw_eval = mutateGateway_def revertGateway_def recordedHosts_def remainingHosts_def serverHosts_def
  HasPrefix_def commaFree_def allHosts_def baseHost_def Let_def LabelIkeHosts_def

theorem revertGateway_mutateGateway_witness:
  "Annotations plainGateway LabelIkeHosts = None
   \<and> \<not> HasPrefix ''a.io'' (''demo'' @ ''.'') \<and> commaFree ''a.io'' \<and> commaFree ''demo''
   \<and> allHosts plainGateway = [''a.io'']
   \<and> serverHosts (fst (mutateGateway ''demo'' plainGateway)) = [[''a.io'', ''demo.a.io'']]
   \<and> serverHosts (revertGateway ''demo'' (fst (mutateGateway ''demo'' plainGateway))) = [[''a.io'']]
   \<and> Annotations (revertGateway ''demo'' (fst (mutateGateway ''demo'' plainGateway))) LabelIkeHosts = None"
proof -
  have a: "Annotations plainGateway LabelIkeHosts = None" by (simp add: plainGateway_def)
  have h: "allHosts plainGateway = [''a.io'']" by (simp add: plainGateway_def allHosts_def)
  have b: "\<forall>h\<in>set (allHosts plainGateway). \<not> HasPrefix h (''demo'' @ ''.'') \<and> commaFree h"
    by (simp add: h HasPrefix_def commaFree_def)
  have c: "commaFree ''demo''" by (simp add: commaFree_def)
  have m: "serverHosts (fst (mutateGateway ''demo'' plainGateway)) = [[''a.io'', ''demo.a.io'']]"
    by (simp add: gw_eval plainGateway_def)
  have s: "serverHosts plainGateway = [[''a.io'']]" by (simp add: serverHosts_def plainGateway_def)
  show ?thesis
    using revertGateway_mutateGateway[OF a b c] a b c h m s by simp
qed

text \<open>
  C4, as the spec states it, fails on a host with a comma: the annotation written by the
  mutator reads back as two hosts, neither of which the revertor finds on the server.
\<close>

theorem revertGateway_mutateGateway_comma:
  "Annotations commaGateway LabelIkeHosts = None
   \<and> allHosts commaGateway = [''a,b''] \<and> \<not> HasPrefix ''a,b'' (''demo'' @ ''.'')
   \<and> serverHosts commaGateway = [[''a,b'']]
   \<and> serverHosts (revertGateway ''demo'' (fst (mutateGateway ''demo'' commaGateway))) = [[''a,b'', ''demo.a,b'']]
   \<and> Annotations (revertGateway ''demo'' (fst (mutateGateway ''demo'' commaGateway))) LabelIkeHosts
       = Some ''demo.a,b''"
  by (simp add: gw_eval commaGateway_def)

text \<open>
  C7. With the \<open>ike.hosts\<close> annotation absent or empty the mutator starts from no recorded
  hosts at all (in particular not from the one empty host that splitting the empty
  string gives); and the revertor deletes the key when no recorded host remains, and
  writes the joined list otherwise.
\<close>

theorem ike_hosts_annotation_empty:
  "(Annotations g LabelIkeHosts = None \<or> Annotations g LabelIkeHosts = Some [] \<longrightarrow>
      recordedHosts g = [] \<and>
      set (fst (snd (mutateServers name (Servers g) (recordedHosts g, []))))
        \<subseteq> sessionHost name ` set (allHosts g) \<and>
      mutateGateway name g =
        (case mutateServers name (Servers g) ([], []) of
           (servers, existingHosts, addedHosts) \<Rightarrow>
             (g\<lparr>Servers := servers,
                Annotations := (Annotations g)(LabelIkeHosts \<mapsto> Join existingHosts CHR '','')\<rparr>,
              addedHosts)))
   \<and> (remainingHosts name g = [] \<longrightarrow> Annotations (revertGateway name g) LabelIkeHosts = None)
   \<and> (remainingHosts name g \<noteq> [] \<longrightarrow>
        Annotations (revertGateway name g) LabelIkeHosts = Some (Join (remainingHosts name g) CHR '',''))"
proof -
  have start: "recordedHosts g = []"
    if "Annotations g LabelIkeHosts = None \<or> Annotations g LabelIkeHosts = Some []"
    using that by (auto simp: recordedHosts_def)
  have fresh: "set (fst (snd (mutateServers name (Servers g) ([], [])))) \<subseteq> sessionHost name ` set (allHosts g)"
  proof -
    obtain servers ex added where m: "mutateServers name (Servers g) ([], []) = (servers, ex, added)"
      by (cases "mutateServers name (Servers g) ([], [])") auto
    from mutateServers_appends[OF m] have "set ex \<subseteq> sessionHost name ` set (allHosts g)"
      by (auto simp: allHosts_def)
    then show ?thesis by (simp add: m)
  qed
  have mutate: "mutateGateway name g =
        (case mutateServers name (Servers g) ([], []) of
           (servers, existingHosts, addedHosts) \<Rightarrow>
             (g\<lparr>Servers := servers,
                Annotations := (Annotations g)(LabelIkeHosts \<mapsto> Join existingHosts CHR '','')\<rparr>,
              addedHosts))"
    if "recordedHosts g = []"
    using that by (simp add: mutateGateway_def)
  have revert: "Annotations (revertGateway name g) LabelIkeHosts =
      (if remainingHosts name g = [] then None else Some (Join (remainingHosts name g) CHR '',''))"
    by (simp add: revertGateway_def)
  show ?thesis using start fresh mutate revert by simp
qed

theorem ike_hosts_annotation_empty_witness:
  "Annotations emptyAnnotationGateway LabelIkeHosts = Some []
   \<and> recordedHosts emptyAnnotationGateway = []
   \<and> sessionHost ''demo'' ` set (allHosts emptyAnnotationGateway) = {''demo.a.io''}
   \<and> Annotations (fst (mutateGateway ''demo'' emptyAnnotationGateway)) LabelIkeHosts = Some ''demo.a.io''
   \<and> remainingHosts ''demo'' (fst (mutateGateway ''demo'' emptyAnnotationGateway)) = []
   \<and> Annotations (revertGateway ''demo'' (fst (mutateGateway ''demo'' emptyAnnotationGateway))) LabelIkeHosts = None
   \<and> remainingHosts ''other'' (fst (mutateGateway ''demo'' emptyAnnotationGateway)) = [''demo.a.io'']
   \<and> Annotations (revertGateway ''other'' (fst (mutateGateway ''demo'' emptyAnnotationGateway))) LabelIkeHosts
       = Some ''demo.a.io''"
proof -
  have a: "Annotations emptyAnnotationGateway LabelIkeHosts = Some []"
    by (simp add: emptyAnnotationGateway_def)
  have m: "mutateServers ''demo'' (Servers emptyAnnotationGateway) ([], [])
             = ([\<lparr>Hosts = [''a.io'', ''demo.a.io''], Port = ''80''\<rparr>], [''demo.a.io''], [''demo.a.io''])"
    by (simp add: emptyAnnotationGateway_def baseHost_def Let_def)
  have r: "remainingHosts ''demo'' (fst (mutateGateway ''demo'' emptyAnnotationGateway)) = []"
    by (simp add: gw_eval emptyAnnotationGateway_def)
  have r': "remainingHosts ''other'' (fst (mutateGateway ''demo'' emptyAnnotationGateway)) = [''demo.a.io'']"
    by (simp add: gw_eval emptyAnnotationGateway_def)
  show ?thesis
    using ike_hosts_annotation_empty[of emptyAnnotationGateway "''demo''"]
      ike_hosts_annotation_empty[of "fst (mutateGateway ''demo'' emptyAnnotationGateway)" "''demo''"]
      ike_hosts_annotation_empty[of "fst (mutateGateway ''demo'' emptyAnnotationGateway)" "''other''"]
      a m r r'
    by (simp add: sessionHost_def allHosts_def emptyAnnotationGateway_def)
qed

section \<open>Properties of the mesh route manipulator\<close>

lemmas vs_eval = mutateVirtualService_def findRoutes_def targets_def clonedRoutes_def simplifyTargetRoute_def
  removeOtherRoutes_def prependedRule_def addHeaderMatch_def addHeader_def Let_def
  dest_def plainRule_def serviceOf_def shortMatch_def ratingsHost_def

text \<open>
  C3 does not hold of the code. \<open>removeOtherRoutes\<close> removes from the slice it ranges over:
  after a removal the next destination has moved into the index just visited and is
  never examined. On a rule with the destinations \<open>a\<close>, \<open>b\<close>, \<open>ratings\<close> the rewritten rule
  that gets prepended keeps the alternative destination \<open>b\<close>, its subset rewritten to the
  new version. With the destination for the host first, the second removal is out of
  the bounds of the shortened slice and the call panics.
\<close>

theorem removeOtherRoutes_index_skew:
  "mutateVirtualService demoCtx (shortMatch ratingsHost) ''v1'' ''v1-demo'' skewedService =
     Inr (Inr (skewedService\<lparr>Http :=
        [\<lparr>Match = [headerMatch], Route = [dest ''b'' ''v1-demo'' 0, dest ''ratings'' ''v1-demo'' 0],
          Redirect = None, Mirror = None, Headers = None\<rparr>,
         plainRule [dest ''a'' ''v1'' 10, dest ''b'' ''v1'' 20, dest ''ratings'' ''v1'' 70]]\<rparr>))
   \<and> mutateVirtualService demoCtx (shortMatch ratingsHost) ''v1'' ''v1-demo'' crashingService = Inl SliceBounds"
  by (simp add: vs_eval skewedService_def crashingService_def demoCtx_def headerMatch_def upt_rec)

text \<open>
  C10 does not hold of the code. A rule whose \<open>Headers\<close> and \<open>Headers.Request\<close> are there and
  whose \<open>Headers.Request.Add\<close> is nil (a rule that only sets request headers) passes both
  nil checks of \<open>addHeaderRequest\<close>, and the write goes to the nil map.
\<close>

theorem addHeaderRequest_nil_Add_panics: "addHeaderRequest setOnlyRule (ctxRoute demoCtx) = Inl NilMapWrite"
  by (simp add: addHeaderRequest_def setOnlyRule_def)



















section \<open>Gateway mutation for two sessions\<close>

















end
